theory Spec2Isabelle
  imports Complex_Main "HOL-Library.Multiset"
begin

section \<open>JavaScript primitives used by the payout engine\<close>

text \<open>
  JavaScript numbers are modelled as exact rationals. Columns of SQL type
  \<open>decimal(10,2)\<close> (\<open>product_value\<close>, \<open>product_cost_per_unit\<close>,
  \<open>shipping_rate_per_kg\<close>, \<open>paid_amount\<close>) are all \<open>NOT NULL\<close>; the driver
  hands them over as decimal text, and \<open>parseFloat\<close>/\<open>Number\<close> reads the text
  back. Such a column is modelled by its integer number of hundredths, and
  \<open>parseDecimal2\<close> is the number that \<open>parseFloat\<close> yields for it.
  Strings are lists of 8-bit characters; \<open>toLowerCase\<close> acts on the ASCII
  letters and \<open>trim\<close> on the ASCII white space.
\<close>

type_synonym decimal2 = int

definition parseDecimal2 :: "decimal2 \<Rightarrow> rat" where
  "parseDecimal2 c = of_int c / 100"

text \<open>\<open>Math.round\<close>: nearest integer, halves towards plus infinity.\<close>

definition js_round :: "rat \<Rightarrow> int" where
  "js_round x = \<lfloor>x + 1 / 2\<rfloor>"

text \<open>The idiom \<open>Math.round(x * 100) / 100\<close>.\<close>

definition round2 :: "rat \<Rightarrow> rat" where
  "round2 x = of_int (js_round (x * 100)) / 100"

definition toLowerChar :: "char \<Rightarrow> char" where
  "toLowerChar c =
     (let n = (of_char c :: nat)
      in if 65 \<le> n \<and> n \<le> 90 then char_of (n + 32) else c)"

definition toLowerCase :: "string \<Rightarrow> string" where
  "toLowerCase s = map toLowerChar s"

definition isWhiteSpace :: "char \<Rightarrow> bool" where
  "isWhiteSpace c = (let n = (of_char c :: nat) in (9 \<le> n \<and> n \<le> 13) \<or> n = 32)"

definition js_trim :: "string \<Rightarrow> string" where
  "js_trim s = rev (dropWhile isWhiteSpace (rev (dropWhile isWhiteSpace s)))"

text \<open>\<open>s.includes(sub)\<close>: \<open>sub\<close> occurs in \<open>s\<close> as a contiguous substring.\<close>

fun js_includes :: "string \<Rightarrow> string \<Rightarrow> bool" where
  "js_includes [] sub = (sub = [])"
| "js_includes (c # cs) sub = (take (length sub) (c # cs) = sub \<or> js_includes cs sub)"

text \<open>\<open>key.split('|')\<close>; the result always has at least one segment.\<close>

fun js_split :: "char \<Rightarrow> string \<Rightarrow> string list" where
  "js_split d [] = [[]]"
| "js_split d (c # cs) =
     (case js_split d cs of
        [] \<Rightarrow> (if c = d then [[], []] else [[c]])
      | seg # segs \<Rightarrow> (if c = d then [] # seg # segs else (c # seg) # segs))"

text \<open>
  Array destructuring \<open>[a, b, c] = segs\<close> reads an index that may be missing
  (\<open>undefined\<close>, here \<open>None\<close>).
\<close>

definition segment :: "string list \<Rightarrow> nat \<Rightarrow> string option" where
  "segment segs i = (if i < length segs then Some (segs ! i) else None)"

text \<open>
  A JavaScript \<open>Map\<close> keeps its keys in order of first insertion; \<open>set\<close> on a
  key that is present replaces the value in place.
\<close>

fun map_set :: "('k \<times> 'v) list \<Rightarrow> 'k \<Rightarrow> 'v \<Rightarrow> ('k \<times> 'v) list" where
  "map_set [] k v = [(k, v)]"
| "map_set ((k', v') # m) k v =
     (if k' = k then (k, v) # m else (k', v') # map_set m k v)"

definition map_get :: "('k \<times> 'v) list \<Rightarrow> 'k \<Rightarrow> 'v option" where
  "map_get m k = map_of m k"

text \<open>
  A \<open>Date\<close> built from a request string is \<open>None\<close> when the string does not
  parse (Invalid Date); every comparison with it is false. Timestamps of the
  store are milliseconds.
\<close>

type_synonym jsdate = "int option"

definition date_ge :: "int \<Rightarrow> jsdate \<Rightarrow> bool" where
  "date_ge t bound = (case bound of None \<Rightarrow> False | Some b \<Rightarrow> b \<le> t)"

definition date_le :: "int \<Rightarrow> jsdate \<Rightarrow> bool" where
  "date_le t bound = (case bound of None \<Rightarrow> False | Some b \<Rightarrow> t \<le> b)"

section \<open>Data model (shared/schema.ts)\<close>

record order_data =
  od_id :: string
  od_dropshipperEmail :: string
  od_orderId :: string
  od_orderDate :: int
  od_waybill :: "string option"
  od_productName :: string
  od_sku :: "string option"
  od_productUid :: string
  od_qty :: int
  od_productValue :: decimal2
  od_mode :: "string option"
  od_status :: string
  od_deliveredDate :: "int option"
  od_rtsDate :: "int option"
  od_shippingProvider :: string

text \<open>\<open>product_weight\<close> is \<open>decimal(8,3)\<close>; only its text is used, inside lookup keys.\<close>

record product_price =
  pp_dropshipperEmail :: string
  pp_productUid :: string
  pp_productWeight :: "string option"
  pp_productCostPerUnit :: decimal2

record shipping_rate =
  sr_productUid :: string
  sr_productWeight :: string
  sr_shippingProvider :: string
  sr_shippingRatePerKg :: decimal2

record payout_log =
  pl_id :: string
  pl_orderId :: string
  pl_waybill :: "string option"
  pl_dropshipperEmail :: string
  pl_productUid :: string
  pl_paidAmount :: decimal2

record rts_rto_reconciliation =
  rr_id :: string
  rr_orderId :: string
  rr_waybill :: "string option"
  rr_dropshipperEmail :: string
  rr_productUid :: string
  rr_originalPaidAmount :: decimal2
  rr_reversalAmount :: decimal2
  rr_rtsRtoStatus :: string
  rr_status :: string

text \<open>
  The request of \<open>calculatePayouts\<close> with its date strings already turned into
  dates: \<open>deliveredDateToEnd\<close> is \<open>new Date(deliveredDateTo + ' 23:59:59')\<close>.
\<close>

record payout_request =
  orderDateFrom :: jsdate
  orderDateTo :: jsdate
  deliveredDateFrom :: jsdate
  deliveredDateToEnd :: jsdate
  dropshipperEmail :: "string option"

text \<open>
  The fields of \<open>PayoutRow\<close> that carry computed values. The remaining fields of
  the source row are copies of these or of the order (\<open>product\<close>, \<open>productName\<close>,
  \<open>sku\<close>, \<open>skuUid\<close>, \<open>courierCompany\<close>, \<open>shippedQty\<close>, \<open>shippingRatePerKg\<close>,
  \<open>shippingCostCalculated\<close>, \<open>pricePerUnit\<close>, \<open>codRate\<close>, the weight and the
  formatted dates).
\<close>

record payout_row =
  pr_orderId :: string
  pr_waybill :: "string option"
  pr_productUid :: string
  pr_dropshipperEmail :: string
  pr_shippingProvider :: string
  pr_qty :: int
  pr_status :: string
  pr_codAmountRupees :: rat
  pr_productCostPerUnit :: rat
  pr_shippingRate :: rat
  pr_shippingCost :: rat
  pr_productCost :: rat
  pr_payable :: rat
  pr_deliveredQty :: int
  pr_codReceived :: rat

record payout_summary =
  sm_shippingTotal :: int
  sm_codTotal :: int
  sm_productCostTotal :: int
  sm_rtsRtoReversalTotal :: int
  sm_finalPayable :: int
  ordersWithShippingCharges :: nat
  ordersWithProductAmount :: nat
  ordersWithCodAmount :: nat
  totalOrdersProcessed :: nat

record adjustment =
  adj_orderId :: string
  adj_reason :: string
  adj_amount :: rat
  adj_reference :: string

record payout_result =
  summary :: payout_summary
  res_rows :: "payout_row list"
  adjustments :: "adjustment list"

section \<open>The payout aggregation engine (calculatePayouts)\<close>

subsection \<open>Per-line predicates\<close>

definition inOrderDateRange :: "payout_request \<Rightarrow> order_data \<Rightarrow> bool" where
  "inOrderDateRange req order =
     (date_ge (od_orderDate order) (orderDateFrom req) \<and>
      date_le (od_orderDate order) (orderDateTo req))"

definition inDeliveredDateRange :: "payout_request \<Rightarrow> order_data \<Rightarrow> bool" where
  "inDeliveredDateRange req order =
     (case od_deliveredDate order of
        None \<Rightarrow> False
      | Some d \<Rightarrow> date_ge d (deliveredDateFrom req) \<and> date_le d (deliveredDateToEnd req))"

definition isDelivered :: "order_data \<Rightarrow> bool" where
  "isDelivered order = js_includes (toLowerCase (od_status order)) ''delivered''"


definition isCancelled :: "order_data \<Rightarrow> bool" where
  "isCancelled order =
     (toLowerCase (od_status order) = ''cancelled'' \<or>
      js_includes (toLowerCase (od_status order)) ''cancel'')"

text \<open>
  \<open>String(order.mode || '').toLowerCase().trim()\<close>, then the test for COD. The
  source's third disjunct, \<open>paymentMode === null\<close>, compares a string with
  \<open>null\<close> and never holds.
\<close>

definition paymentMode :: "string option \<Rightarrow> string" where
  "paymentMode m = js_trim (toLowerCase (case m of None \<Rightarrow> [] | Some s \<Rightarrow> s))"

definition isCodOrder :: "string option \<Rightarrow> bool" where
  "isCodOrder m = (paymentMode m = ''cod'' \<or> paymentMode m = [])"

subsection \<open>Price and rate lookup\<close>

definition buildPriceMap :: "product_price list \<Rightarrow> (string \<times> rat) list" where
  "buildPriceMap prices =
     foldl (\<lambda>m p. map_set m (pp_dropshipperEmail p @ ''|'' @ pp_productUid p)
                      (parseDecimal2 (pp_productCostPerUnit p))) [] prices"

definition buildRateMap :: "shipping_rate list \<Rightarrow> (string \<times> rat) list" where
  "buildRateMap rates =
     foldl (\<lambda>m r. map_set m
                      (sr_productUid r @ ''|'' @ sr_productWeight r @ ''|'' @ sr_shippingProvider r)
                      (parseDecimal2 (sr_shippingRatePerKg r))) [] rates"

text \<open>
  \<open>prices.find(...)?.productWeight || 0.5\<close>, as it appears inside the template
  literal of the key: the stored decimal text, or \<open>0.5\<close> when there is no price
  row, no weight, or an empty text.
\<close>

definition productWeight :: "product_price list \<Rightarrow> order_data \<Rightarrow> string" where
  "productWeight prices order =
     (case find (\<lambda>p. pp_dropshipperEmail p = od_dropshipperEmail order \<and>
                      pp_productUid p = od_productUid order) prices of
        None \<Rightarrow> ''0.5''
      | Some p \<Rightarrow> (case pp_productWeight p of
                     None \<Rightarrow> ''0.5''
                   | Some w \<Rightarrow> (if w = [] then ''0.5'' else w)))"

definition exactKey :: "product_price list \<Rightarrow> order_data \<Rightarrow> string" where
  "exactKey prices order =
     od_productUid order @ ''|'' @ productWeight prices order @ ''|'' @ od_shippingProvider order"

text \<open>The test of the any-weight loop on one entry of the rate map.\<close>

definition anyWeightMatch :: "order_data \<Rightarrow> string \<times> rat \<Rightarrow> bool" where
  "anyWeightMatch order entry =
     (let segs = js_split (CHR ''|'') (fst entry)
      in segment segs 0 = Some (od_productUid order) \<and>
         segment segs 2 = Some (od_shippingProvider order) \<and>
         0 < snd entry)"

text \<open>
  The two configured tiers, which the source writes out twice (for the charge
  and for the rate shown in the row): the exact key, then the first entry of the
  rate map for the same product and carrier with a positive rate.
\<close>

definition flatShippingRate :: "product_price list \<Rightarrow> (string \<times> rat) list \<Rightarrow> order_data \<Rightarrow> rat" where
  "flatShippingRate prices rateMap order =
     (let exactRate = (case map_get rateMap (exactKey prices order) of None \<Rightarrow> 0 | Some r \<Rightarrow> r);
          flat = (if 0 < exactRate then exactRate else 0)
      in if flat = 0
         then (case find (anyWeightMatch order) rateMap of None \<Rightarrow> flat | Some entry \<Rightarrow> snd entry)
         else flat)"

definition defaultRates :: "string \<Rightarrow> rat option" where
  "defaultRates provider =
     (if provider = ''Delhivery'' then Some 25
      else if provider = ''Bluedart'' then Some 30
      else if provider = ''Ekart'' then Some 20
      else if provider = ''Ekart-Px'' then Some 20
      else if provider = ''DTDC'' then Some 25
      else if provider = ''Ecom Express'' then Some 22
      else if provider = ''Shadowfax'' then Some 20
      else if provider = ''Trackon'' then Some 25
      else None)"

text \<open>The rate shown in the row: the two tiers, then the carrier default, then 25.\<close>

definition shippingRate :: "product_price list \<Rightarrow> (string \<times> rat) list \<Rightarrow> order_data \<Rightarrow> rat" where
  "shippingRate prices rateMap order =
     (let rate = flatShippingRate prices rateMap order
      in if rate = 0
         then (case defaultRates (od_shippingProvider order) of None \<Rightarrow> 25 | Some d \<Rightarrow> d)
         else rate)"

definition productPrice :: "(string \<times> rat) list \<Rightarrow> order_data \<Rightarrow> rat" where
  "productPrice priceMap order =
     (case map_get priceMap (od_dropshipperEmail order @ ''|'' @ od_productUid order) of
        None \<Rightarrow> 0 | Some c \<Rightarrow> c)"

subsection \<open>Per-line amounts\<close>

definition shippingCost :: "payout_request \<Rightarrow> product_price list \<Rightarrow> (string \<times> rat) list \<Rightarrow> order_data \<Rightarrow> rat" where
  "shippingCost req prices rateMap order =
     (if inOrderDateRange req order \<and> \<not> isCancelled order
      then round2 (of_int (od_qty order) * flatShippingRate prices rateMap order)
      else 0)"

definition codReceived :: "payout_request \<Rightarrow> order_data \<Rightarrow> rat" where
  "codReceived req order =
     (if isDelivered order \<and> inDeliveredDateRange req order \<and> isCodOrder (od_mode order)
      then parseDecimal2 (od_productValue order)
      else 0)"

definition productCost :: "payout_request \<Rightarrow> (string \<times> rat) list \<Rightarrow> order_data \<Rightarrow> rat" where
  "productCost req priceMap order =
     (if isDelivered order \<and> inDeliveredDateRange req order
      then of_int (od_qty order) * productPrice priceMap order
      else 0)"

definition deliveredQty :: "payout_request \<Rightarrow> order_data \<Rightarrow> int" where
  "deliveredQty req order =
     (if isDelivered order \<and> inDeliveredDateRange req order then od_qty order else 0)"

definition payoutRow :: "payout_request \<Rightarrow> product_price list \<Rightarrow> (string \<times> rat) list \<Rightarrow> (string \<times> rat) list \<Rightarrow> order_data \<Rightarrow> payout_row" where
  "payoutRow req prices priceMap rateMap order =
     \<lparr> pr_orderId = od_orderId order,
       pr_waybill = od_waybill order,
       pr_productUid = od_productUid order,
       pr_dropshipperEmail = od_dropshipperEmail order,
       pr_shippingProvider = od_shippingProvider order,
       pr_qty = od_qty order,
       pr_status = od_status order,
       pr_codAmountRupees =
         round2 (codReceived req order / of_int (if od_qty order = 0 then 1 else od_qty order)),
       pr_productCostPerUnit = productPrice priceMap order,
       pr_shippingRate = shippingRate prices rateMap order,
       pr_shippingCost = shippingCost req prices rateMap order,
       pr_productCost = productCost req priceMap order,
       pr_payable =
         codReceived req order - shippingCost req prices rateMap order
           - productCost req priceMap order + 0,
       pr_deliveredQty = deliveredQty req order,
       pr_codReceived = round2 (codReceived req order) \<rparr>"

subsection \<open>The accumulators and the loop\<close>

record calc_state =
  shippingTotal :: rat
  codTotal :: rat
  productCostTotal :: rat
  rtsRtoReversalTotal :: rat
  uniqueShippingOrders :: "string set"
  uniqueProductAmountOrders :: "string set"
  uniqueCodOrders :: "string set"
  rows :: "payout_row list"

definition initialState :: calc_state where
  "initialState =
     \<lparr> shippingTotal = 0, codTotal = 0, productCostTotal = 0, rtsRtoReversalTotal = 0,
       uniqueShippingOrders = {}, uniqueProductAmountOrders = {}, uniqueCodOrders = {},
       rows = [] \<rparr>"

text \<open>
  The body of the inner loop for one line item. The \<open>continue\<close> for a cancelled
  line inside the order window returns the accumulators untouched.
\<close>

definition processOrder :: "payout_request \<Rightarrow> product_price list \<Rightarrow> (string \<times> rat) list \<Rightarrow> (string \<times> rat) list \<Rightarrow> calc_state \<Rightarrow> order_data \<Rightarrow> calc_state" where
  "processOrder req prices priceMap rateMap st order =
     (if isCancelled order \<and> inOrderDateRange req order then st
      else
        let st1 =
              (if inOrderDateRange req order \<and> \<not> isCancelled order
               then st\<lparr> shippingTotal := shippingTotal st + shippingCost req prices rateMap order,
                        uniqueShippingOrders :=
                          (if 0 < shippingCost req prices rateMap order
                           then insert (od_orderId order) (uniqueShippingOrders st)
                           else uniqueShippingOrders st) \<rparr>
               else st);
            st2 =
              (if isDelivered order \<and> inDeliveredDateRange req order
               then (let st1' =
                           (if isCodOrder (od_mode order)
                            then st1\<lparr> codTotal := codTotal st1 + codReceived req order,
                                      uniqueCodOrders := insert (od_orderId order) (uniqueCodOrders st1) \<rparr>
                            else st1)
                     in st1'\<lparr> productCostTotal := productCostTotal st1' + productCost req priceMap order,
                              uniqueProductAmountOrders :=
                                insert (od_orderId order) (uniqueProductAmountOrders st1') \<rparr>)
               else st1)
        in st2\<lparr> rows := rows st2 @ [payoutRow req prices priceMap rateMap order] \<rparr>)"

text \<open>\<open>orderGroups\<close>: the lines grouped by order identifier, groups in order of first appearance.\<close>

fun groupPush :: "(string \<times> order_data list) list \<Rightarrow> order_data \<Rightarrow> (string \<times> order_data list) list" where
  "groupPush [] order = [(od_orderId order, [order])]"
| "groupPush ((k, items) # groups) order =
     (if k = od_orderId order then (k, items @ [order]) # groups
      else (k, items) # groupPush groups order)"

definition orderGroups :: "order_data list \<Rightarrow> (string \<times> order_data list) list" where
  "orderGroups orders = foldl groupPush [] orders"

definition payoutLoop :: "payout_request \<Rightarrow> product_price list \<Rightarrow> (string \<times> rat) list \<Rightarrow> (string \<times> rat) list \<Rightarrow> order_data list \<Rightarrow> calc_state" where
  "payoutLoop req prices priceMap rateMap orders =
     foldl (\<lambda>st group. foldl (processOrder req prices priceMap rateMap) st (snd group))
       initialState (orderGroups orders)"

subsection \<open>Queries and the result\<close>

definition excludedEmails :: "string list" where
  "excludedEmails = [''akash@shopperskart.shop'', ''buzwidetechnologypvtltd@gmail.com'']"

text \<open>A string is truthy when it is present and not empty.\<close>

definition truthy :: "string option \<Rightarrow> bool" where
  "truthy s = (case s of None \<Rightarrow> False | Some t \<Rightarrow> t \<noteq> [])"

text \<open>
  The \<open>where\<close> clause of the order query; the store compares the lower-cased
  texts, modelled as equality of strings.
\<close>

definition orderSelected :: "payout_request \<Rightarrow> order_data \<Rightarrow> bool" where
  "orderSelected req order =
     (toLowerCase (od_dropshipperEmail order) \<notin> set excludedEmails \<and>
      (case dropshipperEmail req of
         None \<Rightarrow> True
       | Some e \<Rightarrow> e = [] \<or> toLowerCase (od_dropshipperEmail order) = toLowerCase e))"

definition pricesSelected :: "payout_request \<Rightarrow> product_price list \<Rightarrow> product_price list" where
  "pricesSelected req prices =
     (case dropshipperEmail req of
        None \<Rightarrow> prices
      | Some e \<Rightarrow> (if e = [] then prices
                   else filter (\<lambda>p. toLowerCase (pp_dropshipperEmail p) = toLowerCase e) prices))"

text \<open>The accumulators when the loop has ended, from the tables of the store.\<close>

definition payoutState :: "payout_request \<Rightarrow> order_data list \<Rightarrow> product_price list \<Rightarrow> shipping_rate list \<Rightarrow> calc_state" where
  "payoutState req orderTable priceTable rateTable =
     (let orders = filter (orderSelected req) orderTable;
          prices = pricesSelected req priceTable
      in payoutLoop req prices (buildPriceMap prices) (buildRateMap rateTable) orders)"

definition calculatePayouts :: "payout_request \<Rightarrow> order_data list \<Rightarrow> product_price list \<Rightarrow> shipping_rate list \<Rightarrow> payout_result" where
  "calculatePayouts req orderTable priceTable rateTable =
     (let st = payoutState req orderTable priceTable rateTable;
          finalPayable =
            js_round (codTotal st - shippingTotal st - productCostTotal st + rtsRtoReversalTotal st)
      in \<lparr> summary =
             \<lparr> sm_shippingTotal = js_round (shippingTotal st),
               sm_codTotal = js_round (codTotal st),
               sm_productCostTotal = js_round (productCostTotal st),
               sm_rtsRtoReversalTotal = js_round (rtsRtoReversalTotal st),
               sm_finalPayable = finalPayable,
               ordersWithShippingCharges = card (uniqueShippingOrders st),
               ordersWithProductAmount = card (uniqueProductAmountOrders st),
               ordersWithCodAmount = card (uniqueCodOrders st),
               totalOrdersProcessed = length (rows st) \<rparr>,
           res_rows = rows st,
           adjustments = [] \<rparr>)"

section \<open>RTS/RTO detection and reconciliation\<close>

record detect_params =
  ad_orderDateFrom :: jsdate
  ad_orderDateTo :: jsdate
  ad_dropshipperEmail :: "string option"

datatype confidence = High | Medium | Low

text \<open>A suggestion; the free-text \<open>reason\<close> of the source is left out.\<close>

record suggestion =
  sg_orderId :: string
  sg_waybill :: "string option"
  sg_dropshipperEmail :: string
  sg_productUid :: string
  sg_suggestedReversalAmount :: rat
  sg_originalPaidAmount :: rat
  sg_rtsRtoStatus :: string
  sg_confidence :: confidence
  sg_previousStatus :: "string option"
  sg_statusChangeDetected :: bool

definition rtsRtoStatuses :: "string list" where
  "rtsRtoStatuses = [''RTS'', ''RTO'', ''RTO-Dispatched'', ''RTO-IT'']"

definition allOrders :: "detect_params \<Rightarrow> order_data list \<Rightarrow> order_data list" where
  "allOrders params orderTable =
     (case ad_dropshipperEmail params of
        None \<Rightarrow> orderTable
      | Some e \<Rightarrow> (if e = [] then orderTable
                   else filter (\<lambda>order. od_dropshipperEmail order = e) orderTable))"

text \<open>
  \<open>orderStatusHistory\<close> is built by the same grouping code as \<open>orderGroups\<close>;
  \<open>orderStatusHistory.get(orderId) || []\<close> reads one history.
\<close>

definition orderHistory :: "order_data list \<Rightarrow> string \<Rightarrow> order_data list" where
  "orderHistory orders k = (case map_get (orderGroups orders) k of None \<Rightarrow> [] | Some h \<Rightarrow> h)"

text \<open>
  \<open>orderHistory.sort((a, b) => a.id - b.id)\<close>: the identifiers are UUID texts
  (\<open>randomUUID()\<close> on insert), so the difference is \<open>NaN\<close> for every pair, which
  the sort reads as 0; the sort is stable, so the history keeps the order in
  which the store returned it.
\<close>

definition sortHistory :: "order_data list \<Rightarrow> order_data list" where
  "sortHistory h = h"

definition currentRtsRtoOrders :: "detect_params \<Rightarrow> order_data list \<Rightarrow> order_data list" where
  "currentRtsRtoOrders params orders =
     filter (\<lambda>order. od_status order \<in> set rtsRtoStatuses \<and>
                      date_ge (od_orderDate order) (ad_orderDateFrom params) \<and>
                      date_le (od_orderDate order) (ad_orderDateTo params)) orders"

text \<open>The two ledger queries, \<open>inArray(orderId, orderIds)\<close>, skipped when there are no identifiers.\<close>

definition alreadyReconciled :: "string list \<Rightarrow> rts_rto_reconciliation list \<Rightarrow> string list" where
  "alreadyReconciled orderIds ledger =
     (if orderIds \<noteq> []
      then map rr_orderId (filter (\<lambda>r. rr_orderId r \<in> set orderIds) ledger)
      else [])"

definition priorPayouts :: "string list \<Rightarrow> payout_log list \<Rightarrow> payout_log list" where
  "priorPayouts orderIds payoutTable =
     (if orderIds \<noteq> [] then filter (\<lambda>p. pl_orderId p \<in> set orderIds) payoutTable else [])"

definition payoutMap :: "payout_log list \<Rightarrow> (string \<times> payout_log) list" where
  "payoutMap payouts = foldl (\<lambda>m p. map_set m (pl_orderId p) p) [] payouts"

text \<open>The test on a pair of neighbouring snapshots of a history.\<close>

definition deliveredThenReturned :: "order_data \<Rightarrow> order_data \<Rightarrow> bool" where
  "deliveredThenReturned prevOrder nextOrder =
     ((js_includes (toLowerCase (od_status prevOrder)) ''delivered'' \<or>
       js_includes (toLowerCase (od_status prevOrder)) ''del'') \<and>
      od_status nextOrder \<in> set rtsRtoStatuses)"

text \<open>
  The scan \<open>for (i = 0; i < length - 1; i++)\<close> with its \<open>break\<close>; the result is
  \<open>(previousDeliveredStatus, statusChangeDetected)\<close>.
\<close>

fun statusChange :: "order_data list \<Rightarrow> string option \<times> bool" where
  "statusChange (prevOrder # nextOrder # rest) =
     (if deliveredThenReturned prevOrder nextOrder then (Some (od_status prevOrder), True)
      else statusChange (nextOrder # rest))"
| "statusChange [prevOrder] = (None, False)"
| "statusChange [] = (None, False)"

text \<open>
  \<open>parseFloat(currentOrder.codAmount) || 0\<close>: an order row has no \<open>codAmount\<close>
  column, so the property is \<open>undefined\<close>, the parse is \<open>NaN\<close> and the amount 0.
\<close>

definition codAmount :: "order_data \<Rightarrow> rat" where
  "codAmount order = 0"

definition estimatedReversal :: "order_data \<Rightarrow> rat" where
  "estimatedReversal order = max 0 (codAmount order - 25 - codAmount order * (3 / 10))"

definition makeSuggestion :: "order_data \<Rightarrow> string option \<times> bool \<Rightarrow> payout_log option \<Rightarrow> suggestion" where
  "makeSuggestion currentOrder change priorPayout =
     (let amounts =
            (if snd change
             then (case priorPayout of
                     Some p \<Rightarrow> (parseDecimal2 (pl_paidAmount p), parseDecimal2 (pl_paidAmount p), High)
                   | None \<Rightarrow> (estimatedReversal currentOrder, 0, High))
             else (case priorPayout of
                     Some p \<Rightarrow> (parseDecimal2 (pl_paidAmount p), parseDecimal2 (pl_paidAmount p), Medium)
                   | None \<Rightarrow> (estimatedReversal currentOrder, 0, Low)))
      in \<lparr> sg_orderId = od_orderId currentOrder,
           sg_waybill = od_waybill currentOrder,
           sg_dropshipperEmail = od_dropshipperEmail currentOrder,
           sg_productUid = od_productUid currentOrder,
           sg_suggestedReversalAmount = round2 (fst amounts),
           sg_originalPaidAmount = round2 (fst (snd amounts)),
           sg_rtsRtoStatus = od_status currentOrder,
           sg_confidence = snd (snd amounts),
           sg_previousStatus = fst change,
           sg_statusChangeDetected = snd change \<rparr>)"

definition confidenceOrder :: "confidence \<Rightarrow> int" where
  "confidenceOrder c = (case c of High \<Rightarrow> 3 | Medium \<Rightarrow> 2 | Low \<Rightarrow> 1)"

definition compareSuggestions :: "suggestion \<Rightarrow> suggestion \<Rightarrow> rat" where
  "compareSuggestions a b =
     (if confidenceOrder (sg_confidence a) \<noteq> confidenceOrder (sg_confidence b)
      then of_int (confidenceOrder (sg_confidence b) - confidenceOrder (sg_confidence a))
      else sg_suggestedReversalAmount b - sg_suggestedReversalAmount a)"

text \<open>\<open>Array.prototype.sort\<close> with a comparator: a stable sort, here by insertion.\<close>

fun insertSorted :: "('a \<Rightarrow> 'a \<Rightarrow> rat) \<Rightarrow> 'a \<Rightarrow> 'a list \<Rightarrow> 'a list" where
  "insertSorted cmp x [] = [x]"
| "insertSorted cmp x (y # ys) =
     (if cmp x y \<le> 0 then x # y # ys else y # insertSorted cmp x ys)"

definition js_sort :: "('a \<Rightarrow> 'a \<Rightarrow> rat) \<Rightarrow> 'a list \<Rightarrow> 'a list" where
  "js_sort cmp xs = foldr (insertSorted cmp) xs []"

definition autoDetectRtsRtoReconciliations :: "detect_params \<Rightarrow> order_data list \<Rightarrow> rts_rto_reconciliation list \<Rightarrow> payout_log list \<Rightarrow> suggestion list" where
  "autoDetectRtsRtoReconciliations params orderTable ledger payoutTable =
     (let orders = allOrders params orderTable;
          current = currentRtsRtoOrders params orders;
          orderIds = map od_orderId current;
          reconciledSet = set (alreadyReconciled orderIds ledger);
          pmap = payoutMap (priorPayouts orderIds payoutTable);
          suggestions =
            map (\<lambda>currentOrder.
                   makeSuggestion currentOrder
                     (statusChange (sortHistory (orderHistory orders (od_orderId currentOrder))))
                     (map_get pmap (od_orderId currentOrder)))
              (filter (\<lambda>currentOrder. od_orderId currentOrder \<notin> reconciledSet) current)
      in js_sort compareSuggestions suggestions)"

text \<open>
  \<open>processRtsRtoReconciliation\<close>: insert the record under a fresh identifier and
  read it back; the ledger is returned with the inserted row.
\<close>

datatype error = NotFoundAfterInsert

definition processRtsRtoReconciliation :: "string \<Rightarrow> rts_rto_reconciliation \<Rightarrow> rts_rto_reconciliation list \<Rightarrow> error + (rts_rto_reconciliation list \<times> rts_rto_reconciliation)" where
  "processRtsRtoReconciliation newId data ledger =
     (let ledger' = ledger @ [data\<lparr> rr_id := newId \<rparr>]
      in case find (\<lambda>r. rr_id r = newId) ledger' of
           None \<Rightarrow> Inl NotFoundAfterInsert
         | Some result \<Rightarrow> Inr (ledger', result))"

section \<open>Notions used in the statements\<close>

text \<open>A line that the loop leaves by \<open>continue\<close>: cancelled, order date inside the order window.\<close>

definition skipped :: "payout_request \<Rightarrow> order_data \<Rightarrow> bool" where
  "skipped req order = (isCancelled order \<and> inOrderDateRange req order)"


text \<open>The lines in the order in which the nested loops visit them.\<close>

definition visitOrder :: "order_data list \<Rightarrow> order_data list" where
  "visitOrder orders = concat (map snd (orderGroups orders))"

subsection \<open>Sample data\<close>

definition sampleRequest :: payout_request where
  "sampleRequest =
     \<lparr> orderDateFrom = Some 0, orderDateTo = Some 10,
       deliveredDateFrom = Some 0, deliveredDateToEnd = Some 10,
       dropshipperEmail = None \<rparr>"

definition sampleLine :: order_data where
  "sampleLine =
     \<lparr> od_id = ''u1'', od_dropshipperEmail = ''seller@shop.in'', od_orderId = ''A1'',
       od_orderDate = 5, od_waybill = None, od_productName = ''Lamp'', od_sku = None,
       od_productUid = ''Lamp'', od_qty = 1, od_productValue = 100060,
       od_mode = Some ''COD'', od_status = ''Delivered'', od_deliveredDate = Some 6,
       od_rtsDate = None, od_shippingProvider = ''Bluedart'' \<rparr>"

definition samplePrice :: product_price where
  "samplePrice =
     \<lparr> pp_dropshipperEmail = ''seller@shop.in'', pp_productUid = ''Lamp'',
       pp_productWeight = Some ''0.500'', pp_productCostPerUnit = 5000 \<rparr>"

definition sampleRate :: shipping_rate where
  "sampleRate =
     \<lparr> sr_productUid = ''Lamp'', sr_productWeight = ''0.500'',
       sr_shippingProvider = ''Bluedart'', sr_shippingRatePerKg = 20040 \<rparr>"





definition codLine :: order_data where
  "codLine = sampleLine\<lparr> od_qty := 3 \<rparr>"

definition sampleParams :: detect_params where
  "sampleParams =
     \<lparr> ad_orderDateFrom = Some 0, ad_orderDateTo = Some 10, ad_dropshipperEmail = None \<rparr>"

definition snapshotDelivered :: order_data where
  "snapshotDelivered = sampleLine"


definition snapshotRto :: order_data where
  "snapshotRto = sampleLine\<lparr> od_id := ''u3'', od_status := ''RTO'' \<rparr>"

definition snapshotRtoAgain :: order_data where
  "snapshotRtoAgain = sampleLine\<lparr> od_id := ''u4'', od_status := ''RTO'' \<rparr>"

definition samplePayout :: payout_log where
  "samplePayout =
     \<lparr> pl_id = ''p1'', pl_orderId = ''A1'', pl_waybill = None,
       pl_dropshipperEmail = ''seller@shop.in'', pl_productUid = ''Lamp'',
       pl_paidAmount = 30000 \<rparr>"

definition sampleReconciliation :: rts_rto_reconciliation where
  "sampleReconciliation =
     \<lparr> rr_id = [], rr_orderId = ''A1'', rr_waybill = None,
       rr_dropshipperEmail = ''seller@shop.in'', rr_productUid = ''Lamp'',
       rr_originalPaidAmount = 30000, rr_reversalAmount = 30000,
       rr_rtsRtoStatus = ''RTO'', rr_status = ''pending'' \<rparr>"

section \<open>The loop of calculatePayouts in closed form\<close>

lemma foldl_groups_concat:
  "foldl (\<lambda>st group. foldl f st (snd group)) s gs = foldl f s (concat (map snd gs))"
  by (induction gs arbitrary: s) simp_all

lemma mset_groupPush:
  "mset (concat (map snd (groupPush gs x))) = add_mset x (mset (concat (map snd gs)))"
  by (induction gs x rule: groupPush.induct) simp_all

lemma mset_foldl_groupPush:
  "mset (concat (map snd (foldl groupPush gs xs))) = mset (concat (map snd gs)) + mset xs"
  by (induction xs arbitrary: gs) (simp_all add: mset_groupPush)

lemma mset_orderGroups: "mset (concat (map snd (orderGroups xs))) = mset xs"
  by (simp add: orderGroups_def mset_foldl_groupPush)



lemma step_codTotal:
  "codTotal (processOrder req prices pm rm st x) =
     codTotal st + (if skipped req x then 0 else codReceived req x)"
  by (simp add: processOrder_def codReceived_def skipped_def Let_def)






lemma step_rows:
  "rows (processOrder req prices pm rm st x) =
     rows st @ (if skipped req x then [] else [payoutRow req prices pm rm x])"
  by (simp add: processOrder_def skipped_def Let_def)


lemma loop_codTotal:
  "codTotal (foldl (processOrder req prices pm rm) st xs) =
     codTotal st + sum_list (map (\<lambda>x. if skipped req x then 0 else codReceived req x) xs)"
  by (induction xs arbitrary: st) (simp_all add: step_codTotal)






lemma loop_rows:
  "rows (foldl (processOrder req prices pm rm) st xs) =
     rows st @ map (payoutRow req prices pm rm) (filter (\<lambda>x. \<not> skipped req x) xs)"
  by (induction xs arbitrary: st) (simp_all add: step_rows)

lemma sum_list_perm: "mset xs = mset ys \<Longrightarrow> sum_list (map f xs) = sum_list (map (f :: 'a \<Rightarrow> rat) ys)"
  by (metis mset_map sum_mset_sum_list)

lemma payoutLoop_visit:
  "payoutLoop req prices pm rm orders =
     foldl (processOrder req prices pm rm) initialState (visitOrder orders)"
  by (simp add: payoutLoop_def visitOrder_def foldl_groups_concat)

lemma mset_visitOrder: "mset (visitOrder orders) = mset orders"
  by (simp add: visitOrder_def mset_orderGroups)



lemma payoutLoop_codTotal:
  "codTotal (payoutLoop req prices pm rm orders) =
     sum_list (map (\<lambda>x. if skipped req x then 0 else codReceived req x) orders)"
  by (simp add: payoutLoop_visit loop_codTotal initialState_def
        sum_list_perm [OF mset_visitOrder])






lemma payoutLoop_rows:
  "rows (payoutLoop req prices pm rm orders) =
     map (payoutRow req prices pm rm) (filter (\<lambda>x. \<not> skipped req x) (visitOrder orders))"
  by (simp add: payoutLoop_visit loop_rows initialState_def)

lemma payoutLoop_rows_mset:
  "mset (rows (payoutLoop req prices pm rm orders)) =
     mset (map (payoutRow req prices pm rm) (filter (\<lambda>x. \<not> skipped req x) orders))"
  by (simp add: payoutLoop_rows mset_visitOrder)

subsection \<open>The accumulators in closed form, from the tables\<close>

lemma payoutState_loop:
  "payoutState req table pt rt =
     payoutLoop req (pricesSelected req pt) (buildPriceMap (pricesSelected req pt))
       (buildRateMap rt) (filter (orderSelected req) table)"
  by (simp add: payoutState_def Let_def)


lemma payoutState_codTotal:
  "codTotal (payoutState req table pt rt) =
     sum_list (map (\<lambda>x. if skipped req x then 0 else codReceived req x)
                 (filter (orderSelected req) table))"
  by (simp add: payoutState_loop payoutLoop_codTotal)






lemma payoutState_rows_mset:
  "mset (rows (payoutState req table pt rt)) =
     mset (map (payoutRow req (pricesSelected req pt) (buildPriceMap (pricesSelected req pt))
                  (buildRateMap rt))
             (filter (\<lambda>x. orderSelected req x \<and> \<not> skipped req x) table))"
  by (simp add: payoutState_loop payoutLoop_rows_mset)

lemma payoutState_rows_set:
  "set (rows (payoutState req table pt rt)) =
     payoutRow req (pricesSelected req pt) (buildPriceMap (pricesSelected req pt)) (buildRateMap rt)
       ` {x \<in> set table. orderSelected req x \<and> \<not> skipped req x}"
proof -
  have "set (rows (payoutState req table pt rt)) = set_mset (mset (rows (payoutState req table pt rt)))"
    by simp
  also have "\<dots> = payoutRow req (pricesSelected req pt) (buildPriceMap (pricesSelected req pt)) (buildRateMap rt)
       ` {x \<in> set table. orderSelected req x \<and> \<not> skipped req x}"
    unfolding payoutState_rows_mset by auto
  finally show ?thesis .
qed

lemma res_rows_calculatePayouts:
  "res_rows (calculatePayouts req table pt rt) = rows (payoutState req table pt rt)"
  by (simp add: calculatePayouts_def Let_def)

lemma js_round_of_int: "js_round (of_int n) = n"
  by (simp add: js_round_def) linarith

lemma round2_parseDecimal2: "round2 (parseDecimal2 c) = parseDecimal2 c"
  by (simp add: round2_def parseDecimal2_def js_round_of_int)





text \<open>
  Claim C5. For a delivered COD line whose delivered date lies in the delivery
  window, the row carries \<open>codReceived\<close> equal to the stored product value, and
  \<open>codTotal\<close> grows by that value: the quantity does not enter.
\<close>

theorem cod_received_is_product_value:
  assumes "orderSelected req order" and "isDelivered order"
    and "inDeliveredDateRange req order" and "isCodOrder (od_mode order)"
    and "\<not> (isCancelled order \<and> inOrderDateRange req order)"
  shows "(\<exists>row \<in> set (res_rows (calculatePayouts req (xs @ order # ys) pt rt)).
            row = payoutRow req (pricesSelected req pt) (buildPriceMap (pricesSelected req pt))
                    (buildRateMap rt) order \<and>
            pr_codReceived row = parseDecimal2 (od_productValue order)) \<and>
         codTotal (payoutState req (xs @ order # ys) pt rt) =
           codTotal (payoutState req (xs @ ys) pt rt) + parseDecimal2 (od_productValue order)"
proof -
  have sk: "\<not> skipped req order" using assms by (simp add: skipped_def)
  have cr: "codReceived req order = parseDecimal2 (od_productValue order)"
    using assms by (simp add: codReceived_def)
  have "payoutRow req (pricesSelected req pt) (buildPriceMap (pricesSelected req pt)) (buildRateMap rt) order
      \<in> set (res_rows (calculatePayouts req (xs @ order # ys) pt rt))"
    using assms(1) sk by (simp add: res_rows_calculatePayouts payoutState_rows_set)
  then have a: "\<exists>row \<in> set (res_rows (calculatePayouts req (xs @ order # ys) pt rt)).
            row = payoutRow req (pricesSelected req pt) (buildPriceMap (pricesSelected req pt))
                    (buildRateMap rt) order \<and>
            pr_codReceived row = parseDecimal2 (od_productValue order)"
    by (rule rev_bexI) (simp add: payoutRow_def cr round2_parseDecimal2)
  have b: "codTotal (payoutState req (xs @ order # ys) pt rt) =
           codTotal (payoutState req (xs @ ys) pt rt) + parseDecimal2 (od_productValue order)"
    using assms(1) sk by (simp add: payoutState_codTotal cr)
  show ?thesis using a b by blast
qed




text \<open>A delivered COD line of quantity 3 and value 1000.60.\<close>

theorem cod_received_is_product_value_witness:
  "orderSelected sampleRequest codLine \<and> isDelivered codLine \<and>
   inDeliveredDateRange sampleRequest codLine \<and> isCodOrder (od_mode codLine) \<and>
   \<not> (isCancelled codLine \<and> inOrderDateRange sampleRequest codLine) \<and>
   od_qty codLine = 3 \<and> parseDecimal2 (od_productValue codLine) = 10006 / 10 \<and>
   (\<exists>row \<in> set (res_rows (calculatePayouts sampleRequest [codLine] [samplePrice] [sampleRate])).
      pr_codReceived row = 10006 / 10) \<and>
   codTotal (payoutState sampleRequest [codLine] [samplePrice] [sampleRate]) = 10006 / 10"
proof -
  have h1: "orderSelected sampleRequest codLine" by code_simp
  have h2: "isDelivered codLine" by code_simp
  have h3: "inDeliveredDateRange sampleRequest codLine" by code_simp
  have h4: "isCodOrder (od_mode codLine)" by code_simp
  have h5: "\<not> (isCancelled codLine \<and> inOrderDateRange sampleRequest codLine)"
    by code_simp
  have q: "od_qty codLine = 3" by code_simp
  have v: "parseDecimal2 (od_productValue codLine) = 10006 / 10" by code_simp
  have e1: "codTotal (payoutState sampleRequest [] [samplePrice] [sampleRate]) = 0"
    by code_simp
  note t = cod_received_is_product_value [OF h1 h2 h3 h4 h5, where xs = "[]" and ys = "[]"
      and pt = "[samplePrice]" and rt = "[sampleRate]"]
  from t have "\<exists>row \<in> set (res_rows (calculatePayouts sampleRequest [codLine] [samplePrice] [sampleRate])).
      pr_codReceived row = parseDecimal2 (od_productValue codLine)"
    by auto
  then have c1: "\<exists>row \<in> set (res_rows (calculatePayouts sampleRequest [codLine] [samplePrice] [sampleRate])).
      pr_codReceived row = 10006 / 10"
    unfolding v .
  from t have "codTotal (payoutState sampleRequest [codLine] [samplePrice] [sampleRate]) =
      codTotal (payoutState sampleRequest [] [samplePrice] [sampleRate]) +
      parseDecimal2 (od_productValue codLine)"
    by simp
  then have c2: "codTotal (payoutState sampleRequest [codLine] [samplePrice] [sampleRate]) = 10006 / 10"
    unfolding e1 v by simp
  show ?thesis using h1 h2 h3 h4 h5 q v c1 c2 by blast
qed

section \<open>The final payable amount\<close>





section \<open>Shipping charge without a configured rate\<close>





section \<open>Payment mode\<close>










section \<open>The detector in closed form\<close>

lemma map_of_groupPush:
  "map_of (groupPush gs x) k =
     (if k = od_orderId x then Some ((case map_of gs k of None \<Rightarrow> [] | Some h \<Rightarrow> h) @ [x])
      else map_of gs k)"
  by (induction gs x rule: groupPush.induct) auto

lemma map_of_foldl_groupPush:
  "(case map_of (foldl groupPush gs xs) k of None \<Rightarrow> [] | Some h \<Rightarrow> h) =
     (case map_of gs k of None \<Rightarrow> [] | Some h \<Rightarrow> h) @ filter (\<lambda>order. od_orderId order = k) xs"
  by (induction xs arbitrary: gs) (auto simp add: map_of_groupPush)

lemma orderHistory_filter:
  "orderHistory orders k = filter (\<lambda>order. od_orderId order = k) orders"
  using map_of_foldl_groupPush [of "[]" orders k]
  by (simp add: orderHistory_def map_get_def orderGroups_def)



lemma mset_insertSorted: "mset (insertSorted cmp x xs) = add_mset x (mset xs)"
  by (induction xs) simp_all

lemma mset_js_sort: "mset (js_sort cmp xs) = mset xs"
  by (induction xs) (simp_all add: js_sort_def mset_insertSorted)

lemma set_js_sort: "set (js_sort cmp xs) = set xs"
  by (metis mset_js_sort set_mset_mset)

lemma length_filter_js_sort: "length (filter P (js_sort cmp xs)) = length (filter P xs)"
proof -
  have "mset (filter P (js_sort cmp xs)) = mset (filter P xs)"
    by (simp add: mset_js_sort)
  then show ?thesis by (metis size_mset)
qed

lemma map_of_map_set: "map_of (map_set m k v) k' = (if k' = k then Some v else map_of m k')"
  by (induction m) auto

lemma payoutMap_snoc: "payoutMap (ps @ [p]) = map_set (payoutMap ps) (pl_orderId p) p"
  by (simp add: payoutMap_def)

lemma payoutMap_lookup:
  "map_get (payoutMap ps) k =
     (if filter (\<lambda>p. pl_orderId p = k) ps = [] then None
      else Some (last (filter (\<lambda>p. pl_orderId p = k) ps)))"
proof (induction ps rule: rev_induct)
  case Nil
  show ?case by (simp add: payoutMap_def map_get_def)
next
  case (snoc p ps)
  then show ?case by (simp add: payoutMap_snoc map_get_def map_of_map_set)
qed

lemma priorPayouts_filter:
  "k \<in> set orderIds \<Longrightarrow>
     filter (\<lambda>p. pl_orderId p = k) (priorPayouts orderIds payoutTable) =
     filter (\<lambda>p. pl_orderId p = k) payoutTable"
  by (auto simp add: priorPayouts_def intro: filter_cong)

lemma alreadyReconciled_subset:
  "set (alreadyReconciled orderIds ledger) \<subseteq> rr_orderId ` set ledger"
  by (auto simp add: alreadyReconciled_def)

lemma alreadyReconciled_member:
  "r \<in> set ledger \<Longrightarrow> rr_orderId r \<in> set orderIds \<Longrightarrow>
     rr_orderId r \<in> set (alreadyReconciled orderIds ledger)"
  by (auto simp add: alreadyReconciled_def)

text \<open>The suggestion made for one current line, from the tables.\<close>

lemma autoDetect_sorted_map:
  "autoDetectRtsRtoReconciliations params table ledger payoutTable =
     js_sort compareSuggestions
       (map (\<lambda>c. makeSuggestion c
                 (statusChange (filter (\<lambda>order. od_orderId order = od_orderId c) (allOrders params table)))
                 (map_get (payoutMap (priorPayouts
                     (map od_orderId (currentRtsRtoOrders params (allOrders params table))) payoutTable))
                   (od_orderId c)))
          (filter (\<lambda>c. od_orderId c \<notin> set (alreadyReconciled
                     (map od_orderId (currentRtsRtoOrders params (allOrders params table))) ledger))
             (currentRtsRtoOrders params (allOrders params table))))"
  by (simp add: autoDetectRtsRtoReconciliations_def Let_def sortHistory_def orderHistory_filter)

lemma makeSuggestion_fields:
  "sg_orderId (makeSuggestion c ch p) = od_orderId c"
  "sg_statusChangeDetected (makeSuggestion c ch p) = snd ch"
  "sg_previousStatus (makeSuggestion c ch p) = fst ch"
  by (simp_all add: makeSuggestion_def Let_def)

lemma makeSuggestion_paid:
  "snd ch \<Longrightarrow>
     sg_confidence (makeSuggestion c ch (Some p)) = High \<and>
     sg_suggestedReversalAmount (makeSuggestion c ch (Some p)) = parseDecimal2 (pl_paidAmount p) \<and>
     sg_originalPaidAmount (makeSuggestion c ch (Some p)) = parseDecimal2 (pl_paidAmount p)"
  by (simp add: makeSuggestion_def Let_def round2_parseDecimal2)

lemma suggestion_origin:
  assumes "s \<in> set (autoDetectRtsRtoReconciliations params table ledger payoutTable)"
  obtains c where "c \<in> set (currentRtsRtoOrders params (allOrders params table))"
    and "od_orderId c \<notin> set (alreadyReconciled
            (map od_orderId (currentRtsRtoOrders params (allOrders params table))) ledger)"
    and "s = makeSuggestion c
            (statusChange (filter (\<lambda>order. od_orderId order = od_orderId c) (allOrders params table)))
            (map_get (payoutMap (priorPayouts
                (map od_orderId (currentRtsRtoOrders params (allOrders params table))) payoutTable))
              (od_orderId c))"
  using assms unfolding autoDetect_sorted_map set_js_sort by auto

section \<open>Claims about the detector\<close>


text \<open>
  Claim C7. An order identifier with a record in the reconciliation ledger never
  appears among the suggestions; \<open>processRtsRtoReconciliation\<close> always inserts
  its record, and afterwards the order of that record is not suggested.
\<close>

theorem reconciled_order_never_suggested:
  "(r \<in> set ledger \<longrightarrow>
      (\<forall>s \<in> set (autoDetectRtsRtoReconciliations params table ledger payoutTable).
         sg_orderId s \<noteq> rr_orderId r)) \<and>
   (\<exists>ledger' result. processRtsRtoReconciliation newId data ledger = Inr (ledger', result) \<and>
      (\<forall>s \<in> set (autoDetectRtsRtoReconciliations params table ledger' payoutTable).
         sg_orderId s \<noteq> rr_orderId data))"
proof -
  have gen: "\<And>l x. x \<in> set l \<Longrightarrow>
      \<forall>s \<in> set (autoDetectRtsRtoReconciliations params table l payoutTable).
         sg_orderId s \<noteq> rr_orderId x"
  proof
    fix l x s
    assume x: "x \<in> set l"
      and s: "s \<in> set (autoDetectRtsRtoReconciliations params table l payoutTable)"
    from s obtain c where c: "c \<in> set (currentRtsRtoOrders params (allOrders params table))"
      and nr: "od_orderId c \<notin> set (alreadyReconciled
            (map od_orderId (currentRtsRtoOrders params (allOrders params table))) l)"
      and eq: "s = makeSuggestion c
            (statusChange (filter (\<lambda>order. od_orderId order = od_orderId c) (allOrders params table)))
            (map_get (payoutMap (priorPayouts
                (map od_orderId (currentRtsRtoOrders params (allOrders params table))) payoutTable))
              (od_orderId c))"
      by (rule suggestion_origin)
    show "sg_orderId s \<noteq> rr_orderId x"
    proof
      assume "sg_orderId s = rr_orderId x"
      with eq have same: "rr_orderId x = od_orderId c" by (simp add: makeSuggestion_fields)
      with c have "rr_orderId x \<in> set (map od_orderId (currentRtsRtoOrders params (allOrders params table)))"
        by simp
      with x have "rr_orderId x \<in> set (alreadyReconciled
            (map od_orderId (currentRtsRtoOrders params (allOrders params table))) l)"
        by (rule alreadyReconciled_member)
      with nr same show False by simp
    qed
  qed
  have a: "r \<in> set ledger \<longrightarrow>
      (\<forall>s \<in> set (autoDetectRtsRtoReconciliations params table ledger payoutTable).
         sg_orderId s \<noteq> rr_orderId r)"
    using gen by blast
  obtain result where found: "find (\<lambda>x. rr_id x = newId) (ledger @ [data\<lparr>rr_id := newId\<rparr>]) = Some result"
    by (cases "find (\<lambda>x. rr_id x = newId) (ledger @ [data\<lparr>rr_id := newId\<rparr>])")
       (auto simp add: find_None_iff)
  then have ins: "processRtsRtoReconciliation newId data ledger =
      Inr (ledger @ [data\<lparr>rr_id := newId\<rparr>], result)"
    by (simp add: processRtsRtoReconciliation_def Let_def)
  have mem: "data\<lparr>rr_id := newId\<rparr> \<in> set (ledger @ [data\<lparr>rr_id := newId\<rparr>])" by simp
  have "\<forall>s \<in> set (autoDetectRtsRtoReconciliations params table
        (ledger @ [data\<lparr>rr_id := newId\<rparr>]) payoutTable).
      sg_orderId s \<noteq> rr_orderId (data\<lparr>rr_id := newId\<rparr>)"
    using gen [OF mem] .
  then have after: "\<forall>s \<in> set (autoDetectRtsRtoReconciliations params table
        (ledger @ [data\<lparr>rr_id := newId\<rparr>]) payoutTable).
      sg_orderId s \<noteq> rr_orderId data"
    by simp
  show ?thesis using a ins after by blast
qed

text \<open>
  Claim C8, as amended. For an order without a ledger record whose history shows
  the transition and for which the payout log has an entry, the detector emits
  one suggestion per current RTS/RTO line of the order inside the window (so
  exactly one when there is one such line), each with confidence high and a
  suggested reversal equal to the paid amount of the last payout entry of the
  order.
\<close>

theorem detected_and_paid_gives_high_confidence:
  assumes "k \<notin> rr_orderId ` set ledger"
    and "snd (statusChange (filter (\<lambda>order. od_orderId order = k) (allOrders params table)))"
    and "filter (\<lambda>p. pl_orderId p = k) payoutTable \<noteq> []"
  shows "length (filter (\<lambda>s. sg_orderId s = k)
            (autoDetectRtsRtoReconciliations params table ledger payoutTable)) =
         length (filter (\<lambda>c. od_orderId c = k)
            (currentRtsRtoOrders params (allOrders params table))) \<and>
         (\<forall>s \<in> set (autoDetectRtsRtoReconciliations params table ledger payoutTable).
            sg_orderId s = k \<longrightarrow>
              sg_confidence s = High \<and>
              sg_suggestedReversalAmount s =
                parseDecimal2 (pl_paidAmount (last (filter (\<lambda>p. pl_orderId p = k) payoutTable))))"
proof -
  let ?cur = "currentRtsRtoOrders params (allOrders params table)"
  let ?ids = "map od_orderId ?cur"
  have nrec: "k \<notin> set (alreadyReconciled ?ids ledger)"
    using assms(1) alreadyReconciled_subset by blast
  have "filter (\<lambda>c. od_orderId c \<notin> set (alreadyReconciled ?ids ledger) \<and> od_orderId c = k) ?cur =
      filter (\<lambda>c. od_orderId c = k) ?cur"
    using nrec by (auto intro: filter_cong)
  then have count: "length (filter (\<lambda>s. sg_orderId s = k)
            (autoDetectRtsRtoReconciliations params table ledger payoutTable)) =
         length (filter (\<lambda>c. od_orderId c = k) ?cur)"
    by (simp add: autoDetect_sorted_map length_filter_js_sort filter_map comp_def
          makeSuggestion_fields)
  have each: "\<forall>s \<in> set (autoDetectRtsRtoReconciliations params table ledger payoutTable).
            sg_orderId s = k \<longrightarrow>
              sg_confidence s = High \<and>
              sg_suggestedReversalAmount s =
                parseDecimal2 (pl_paidAmount (last (filter (\<lambda>p. pl_orderId p = k) payoutTable)))"
  proof (intro ballI impI)
    fix s
    assume s: "s \<in> set (autoDetectRtsRtoReconciliations params table ledger payoutTable)"
      and k: "sg_orderId s = k"
    from s obtain c where c: "c \<in> set ?cur"
      and eq: "s = makeSuggestion c
            (statusChange (filter (\<lambda>order. od_orderId order = od_orderId c) (allOrders params table)))
            (map_get (payoutMap (priorPayouts ?ids payoutTable)) (od_orderId c))"
      by (rule suggestion_origin)
    from eq k have ck: "od_orderId c = k" by (simp add: makeSuggestion_fields)
    with c have "k \<in> set ?ids" by auto
    then have "filter (\<lambda>p. pl_orderId p = k) (priorPayouts ?ids payoutTable) =
        filter (\<lambda>p. pl_orderId p = k) payoutTable"
      by (rule priorPayouts_filter)
    with assms(3) have look: "map_get (payoutMap (priorPayouts ?ids payoutTable)) k =
        Some (last (filter (\<lambda>p. pl_orderId p = k) payoutTable))"
      by (simp add: payoutMap_lookup)
    from eq ck look have "s = makeSuggestion c
        (statusChange (filter (\<lambda>order. od_orderId order = k) (allOrders params table)))
        (Some (last (filter (\<lambda>p. pl_orderId p = k) payoutTable)))"
      by simp
    with makeSuggestion_paid [OF assms(2)]
    show "sg_confidence s = High \<and>
              sg_suggestedReversalAmount s =
                parseDecimal2 (pl_paidAmount (last (filter (\<lambda>p. pl_orderId p = k) payoutTable)))"
      by simp
  qed
  show ?thesis using count each by blast
qed

text \<open>
  Claim C8 as stated fails: order A1 with snapshots Delivered, RTO, RTO and a
  payout of 300 gets two suggestions, one for each RTO line.
\<close>

theorem one_suggestion_per_order_counterexample:
  "deliveredThenReturned snapshotDelivered snapshotRto \<and>
   map pl_orderId [samplePayout] = [''A1''] \<and>
   map sg_orderId (autoDetectRtsRtoReconciliations sampleParams
       [snapshotDelivered, snapshotRto, snapshotRtoAgain] [] [samplePayout]) = [''A1'', ''A1''] \<and>
   map sg_confidence (autoDetectRtsRtoReconciliations sampleParams
       [snapshotDelivered, snapshotRto, snapshotRtoAgain] [] [samplePayout]) = [High, High]"
  by code_simp


lemma singleton_map:
  assumes "map f xs = [a]"
  obtains x where "xs = [x]" and "f x = a"
  using assms by (cases xs) auto


text \<open>Order A1 is suggested with an empty ledger, and not once the ledger holds a record for it.\<close>

theorem reconciled_order_never_suggested_witness:
  "sampleReconciliation \<in> set [sampleReconciliation] \<and>
   rr_orderId sampleReconciliation = ''A1'' \<and>
   map sg_orderId (autoDetectRtsRtoReconciliations sampleParams
       [snapshotDelivered, snapshotRto] [] [samplePayout]) = [''A1''] \<and>
   ''A1'' \<notin> sg_orderId ` set (autoDetectRtsRtoReconciliations sampleParams
       [snapshotDelivered, snapshotRto] [sampleReconciliation] [samplePayout]) \<and>
   (\<exists>ledger' result.
      processRtsRtoReconciliation ''r1'' sampleReconciliation [] = Inr (ledger', result) \<and>
      ''A1'' \<notin> sg_orderId ` set (autoDetectRtsRtoReconciliations sampleParams
         [snapshotDelivered, snapshotRto] ledger' [samplePayout]))"
proof -
  have m: "sampleReconciliation \<in> set [sampleReconciliation]" by simp
  have o: "rr_orderId sampleReconciliation = ''A1''" by code_simp
  have before: "map sg_orderId (autoDetectRtsRtoReconciliations sampleParams
       [snapshotDelivered, snapshotRto] [] [samplePayout]) = [''A1'']" by code_simp
  note t = reconciled_order_never_suggested [where r = sampleReconciliation
      and ledger = "[sampleReconciliation]" and params = sampleParams
      and table = "[snapshotDelivered, snapshotRto]" and payoutTable = "[samplePayout]"]
  from t m have "\<forall>s \<in> set (autoDetectRtsRtoReconciliations sampleParams
       [snapshotDelivered, snapshotRto] [sampleReconciliation] [samplePayout]).
         sg_orderId s \<noteq> rr_orderId sampleReconciliation"
    by blast
  then have c1: "''A1'' \<notin> sg_orderId ` set (autoDetectRtsRtoReconciliations sampleParams
       [snapshotDelivered, snapshotRto] [sampleReconciliation] [samplePayout])"
    unfolding o by auto
  note u = reconciled_order_never_suggested [where ledger = "[]" and newId = "''r1''"
      and data = sampleReconciliation and params = sampleParams
      and table = "[snapshotDelivered, snapshotRto]" and payoutTable = "[samplePayout]",
      THEN conjunct2]
  then obtain ledger' result where
    ins: "processRtsRtoReconciliation ''r1'' sampleReconciliation [] = Inr (ledger', result)"
    and no: "\<forall>s \<in> set (autoDetectRtsRtoReconciliations sampleParams
         [snapshotDelivered, snapshotRto] ledger' [samplePayout]).
         sg_orderId s \<noteq> rr_orderId sampleReconciliation"
    by blast
  from no have "''A1'' \<notin> sg_orderId ` set (autoDetectRtsRtoReconciliations sampleParams
         [snapshotDelivered, snapshotRto] ledger' [samplePayout])"
    unfolding o by auto
  with ins have c2: "\<exists>ledger' result.
      processRtsRtoReconciliation ''r1'' sampleReconciliation [] = Inr (ledger', result) \<and>
      ''A1'' \<notin> sg_orderId ` set (autoDetectRtsRtoReconciliations sampleParams
         [snapshotDelivered, snapshotRto] ledger' [samplePayout])"
    by blast
  show ?thesis using m o before c1 c2 by blast
qed

text \<open>
  The scenario of the specification: snapshots Delivered then RTO of order A1
  and a payout of 300 give one suggestion, confidence high, reversal 300.
\<close>

theorem detected_and_paid_gives_high_confidence_witness:
  "''A1'' \<notin> rr_orderId ` set [] \<and>
   snd (statusChange (filter (\<lambda>order. od_orderId order = ''A1'')
          (allOrders sampleParams [snapshotDelivered, snapshotRto]))) \<and>
   filter (\<lambda>p. pl_orderId p = ''A1'') [samplePayout] \<noteq> [] \<and>
   map sg_orderId (autoDetectRtsRtoReconciliations sampleParams
       [snapshotDelivered, snapshotRto] [] [samplePayout]) = [''A1''] \<and>
   map sg_confidence (autoDetectRtsRtoReconciliations sampleParams
       [snapshotDelivered, snapshotRto] [] [samplePayout]) = [High] \<and>
   map sg_suggestedReversalAmount (autoDetectRtsRtoReconciliations sampleParams
       [snapshotDelivered, snapshotRto] [] [samplePayout]) = [300] \<and>
   length (filter (\<lambda>s. sg_orderId s = ''A1'') (autoDetectRtsRtoReconciliations sampleParams
       [snapshotDelivered, snapshotRto] [] [samplePayout])) = 1"
proof -
  let ?h = "[snapshotDelivered, snapshotRto]"
  let ?R = "autoDetectRtsRtoReconciliations sampleParams ?h [] [samplePayout]"
  have h1: "''A1'' \<notin> rr_orderId ` set []" by simp
  have h2: "snd (statusChange (filter (\<lambda>order. od_orderId order = ''A1'')
          (allOrders sampleParams ?h)))" by code_simp
  have h3: "filter (\<lambda>p. pl_orderId p = ''A1'') [samplePayout] \<noteq> []" by code_simp
  have cur: "length (filter (\<lambda>c. od_orderId c = ''A1'')
      (currentRtsRtoOrders sampleParams (allOrders sampleParams ?h))) = 1" by code_simp
  have paid: "parseDecimal2 (pl_paidAmount (last (filter (\<lambda>p. pl_orderId p = ''A1'') [samplePayout]))) = 300"
    by code_simp
  have ids: "map sg_orderId ?R = [''A1'']" by code_simp
  then obtain s where R: "?R = [s]" and sid: "sg_orderId s = ''A1''"
    by (rule singleton_map)
  note t = detected_and_paid_gives_high_confidence [OF h1 h2 h3]
  from t cur have c0: "length (filter (\<lambda>s. sg_orderId s = ''A1'') ?R) = 1" by simp
  from t R sid have "sg_confidence s = High \<and>
      sg_suggestedReversalAmount s =
        parseDecimal2 (pl_paidAmount (last (filter (\<lambda>p. pl_orderId p = ''A1'') [samplePayout])))"
    by simp
  with paid have "sg_confidence s = High \<and> sg_suggestedReversalAmount s = 300" by simp
  with R have c1: "map sg_confidence ?R = [High]" and c2: "map sg_suggestedReversalAmount ?R = [300]"
    by simp_all
  show ?thesis using h1 h2 h3 ids c0 c1 c2 by blast
qed

end
